theory Spec2Isabelle
  imports Main "HOL-Library.Char_ord" "HOL-Library.List_Lexorder" "HOL-Library.Word"
begin

section \<open>The kapacitor command-line client (cmd/kapacitor/main.go)\<close>

text \<open>
  The client turns a subcommand and its arguments into HTTP requests against the control
  service at \<^verbatim>\<open>http://localhost:9092\<close>, decodes a JSON envelope from each response and
  reports the outcome. The model makes the effects of a handler explicit: the requests it
  issues, in order, what it writes to standard output and to standard error, and how it
  ends (it returns an error or nil, or it leaves the process through \<^verbatim>\<open>os.Exit\<close>).
  The network is a parameter of every handler that uses it.
\<close>

subsection \<open>Query strings: net/url's Values, QueryEscape and Encode\<close>

text \<open>
  \<^verbatim>\<open>url.Values\<close> is a \<^verbatim>\<open>map[string][]string\<close>: here an association list with one
  entry per key. \<^verbatim>\<open>Add\<close> appends a value to the key's list.
\<close>

type_synonym Values = "(string \<times> string list) list"

fun Add :: "Values \<Rightarrow> string \<Rightarrow> string \<Rightarrow> Values" where
  "Add [] key val = [(key, [val])]"
| "Add ((k, vs) # v) key val =
     (if k = key then (k, vs @ [val]) # v else (k, vs) # Add v key val)"

text \<open>
  \<^verbatim>\<open>shouldEscape(c, encodeQueryComponent)\<close>: letters, digits and the marks
  \<^verbatim>\<open>- _ . ~\<close> are kept, every other byte is escaped.
\<close>

definition shouldEscape :: "char \<Rightarrow> bool" where
  "shouldEscape c =
     (let n = (of_char c :: nat) in
      \<not> ((97 \<le> n \<and> n \<le> 122) \<or> (65 \<le> n \<and> n \<le> 90) \<or> (48 \<le> n \<and> n \<le> 57)
         \<or> c \<in> set ''-_.~''))"

definition upperhex :: string where
  "upperhex = ''0123456789ABCDEF''"

text \<open>One byte of \<^verbatim>\<open>QueryEscape\<close>: a space becomes \<^verbatim>\<open>+\<close>, an escaped byte
  \<^verbatim>\<open>%\<close> and \<^verbatim>\<open>upperhex[c>>4]\<close>, \<^verbatim>\<open>upperhex[c&15]\<close>.\<close>

definition escape_byte :: "char \<Rightarrow> string" where
  "escape_byte c =
     (if c = CHR '' '' then ''+''
      else if shouldEscape c
        then [CHR ''%'', upperhex ! ((of_char c :: nat) div 16),
              upperhex ! ((of_char c :: nat) mod 16)]
      else [c])"

definition QueryEscape :: "string \<Rightarrow> string" where
  "QueryEscape s = concat (map escape_byte s)"

text \<open>\<^verbatim>\<open>strings.Join(elems, sep)\<close>.\<close>

fun Join :: "string list \<Rightarrow> string \<Rightarrow> string" where
  "Join [] sep = []"
| "Join [x] sep = x"
| "Join (x # y # xs) sep = x @ sep @ Join (y # xs) sep"

text \<open>
  \<^verbatim>\<open>Values.Encode\<close>: the keys in sorted order (Go compares strings bytewise, the
  lexicographic order on \<open>char list\<close>), for each key its values in the order they were
  added, every pair written \<^verbatim>\<open>key=value\<close> with both sides escaped, the pairs joined
  by \<^verbatim>\<open>&\<close>.
\<close>

definition Encode :: "Values \<Rightarrow> string" where
  "Encode v =
     Join (concat (map (\<lambda>(k, vs). map (\<lambda>x. QueryEscape k @ ''='' @ QueryEscape x) vs)
                       (sort_key fst v))) ''&''"

text \<open>
  An \<^verbatim>\<open>int64\<close> is a 64-bit word read as a signed number (\<open>sint\<close>).
  \<^verbatim>\<open>strconv.FormatInt(i, 10)\<close> writes it in decimal.
\<close>

type_synonym int64 = "64 word"

fun digits :: "nat \<Rightarrow> string" where
  "digits n =
     (if n < 10 then [''0123456789'' ! n]
      else digits (n div 10) @ [''0123456789'' ! (n mod 10)])"

definition FormatInt :: "int64 \<Rightarrow> string" where
  "FormatInt i =
     (if sint i < 0 then CHR ''-'' # digits (nat (- sint i)) else digits (nat (sint i)))"

subsection \<open>The scheme of a URL\<close>

text \<open>
  \<^verbatim>\<open>strings.Cut(s, sep)\<close> for a separator of one byte: the text before the first
  separator and, when there is one, the text after it.
\<close>

definition Cut :: "string \<Rightarrow> char \<Rightarrow> string \<times> string option" where
  "Cut s sep =
     (takeWhile (\<lambda>c. c \<noteq> sep) s,
      case dropWhile (\<lambda>c. c \<noteq> sep) s of [] \<Rightarrow> None | _ # after \<Rightarrow> Some after)"

definition is_letter :: "char \<Rightarrow> bool" where
  "is_letter c =
     (let n = (of_char c :: nat) in (97 \<le> n \<and> n \<le> 122) \<or> (65 \<le> n \<and> n \<le> 90))"

definition is_scheme_char :: "char \<Rightarrow> bool" where
  "is_scheme_char c =
     (let n = (of_char c :: nat) in is_letter c \<or> (48 \<le> n \<and> n \<le> 57) \<or> c \<in> set ''+-.'')"

text \<open>
  \<^verbatim>\<open>getScheme\<close>: a scheme is a letter followed by letters, digits, \<^verbatim>\<open>+\<close>,
  \<^verbatim>\<open>-\<close> and \<^verbatim>\<open>.\<close> up to a colon. The result is the scheme (empty when
  there is none) and the rest of the URL; \<open>None\<close> is the error on a leading colon.
\<close>

definition getScheme :: "string \<Rightarrow> (string \<times> string) option" where
  "getScheme rawURL =
     (case rawURL of
        [] \<Rightarrow> Some ([], rawURL)
      | c # _ \<Rightarrow>
         if c = CHR '':'' then None
         else if \<not> is_letter c then Some ([], rawURL)
         else
           (case dropWhile is_scheme_char rawURL of
              [] \<Rightarrow> Some ([], rawURL)
            | d # rest \<Rightarrow>
               if d = CHR '':'' then Some (takeWhile is_scheme_char rawURL, rest)
               else Some ([], rawURL)))"

text \<open>
  The scheme of a URL as \<^verbatim>\<open>url.Parse\<close> stores it in the field \<^verbatim>\<open>Scheme\<close>: the
  fragment is cut off, the scheme is split off and put in lower case
  (\<^verbatim>\<open>strings.ToLower\<close>, on the ASCII letters a scheme is made of). It is empty for a
  URL without a scheme.
\<close>

definition ToLower :: "string \<Rightarrow> string" where
  "ToLower s =
     map (\<lambda>c. let n = (of_char c :: nat) in if 65 \<le> n \<and> n \<le> 90 then char_of (n + 32) else c) s"

definition Scheme :: "string \<Rightarrow> string" where
  "Scheme rawURL =
     (case getScheme (fst (Cut rawURL CHR ''#'')) of
        None \<Rightarrow> []
      | Some (scheme, rest) \<Rightarrow> ToLower scheme)"

subsection \<open>Requests, responses and the service\<close>

datatype http_method = GET | POST | DELETE

text \<open>
  A request as the handlers build it: the method, the URL string handed to
  \<^verbatim>\<open>http.Post\<close>, \<^verbatim>\<open>http.Get\<close> or \<^verbatim>\<open>http.NewRequest\<close>, the content type and
  the body (\<open>None\<close> for \<^verbatim>\<open>nil\<close>).
\<close>

record http_request =
  req_method :: http_method
  url :: string
  content_type :: "string option"
  body :: "string option"

text \<open>
  Modelled from the spec: \<^verbatim>\<open>kapacitor.TaskType\<close> is declared in the package
  \<^verbatim>\<open>github.com/influxdb/kapacitor\<close>, a different package from the client's. The
  spec gives it as the closed enumeration streamer, batcher.
\<close>

datatype TaskType = Streamer | Batcher

record task =
  task_Name :: string
  task_Type :: TaskType
  task_Enabled :: bool

record recording =
  recording_ID :: string
  recording_Type :: TaskType
  recording_Size :: int64

text \<open>
  The envelope holds the fields that the handlers' \<^verbatim>\<open>resp\<close> structs declare; each
  handler reads only the fields of its own struct.
\<close>

record envelope =
  Error :: string
  RecordingID :: string
  Tasks :: "task list"
  Recordings :: "recording list"

text \<open>
  A response body as the \<^verbatim>\<open>json.Decoder\<close> reads it: either the decoder finds no JSON
  value in it (\<open>NotJSON\<close>: the body is malformed, or reading it fails), or it reads one,
  and then the body is given by the values it holds for the fields of the envelope (a
  field that is absent, null or of another type is left at its zero value by the decoder).
  The status code of a response is never read by the client, and closing the body
  (\<^verbatim>\<open>defer r.Body.Close()\<close>) has no effect that the model records.
\<close>

datatype response_body = NotJSON | JSON envelope

datatype http_result = TransportError string | Response response_body

text \<open>
  The service answers a request given the requests that were issued before it, so a
  service may answer the same request differently the second time. It stands for the
  network and the remote end together: a \<open>TransportError\<close> is a failure to get a
  response, with the text of the error.
\<close>

type_synonym service = "http_request list \<Rightarrow> http_request \<Rightarrow> http_result"

definition zero_envelope :: envelope where
  "zero_envelope = \<lparr>Error = [], RecordingID = [], Tasks = [], Recordings = []\<rparr>"

text \<open>
  \<^verbatim>\<open>rp := resp{}; d.Decode(&rp)\<close>: the error that \<^verbatim>\<open>Decode\<close> returns is dropped
  at every call site, and on a body that is not JSON the struct keeps its zero value.
\<close>

definition Decode :: "response_body \<Rightarrow> envelope" where
  "Decode b = (case b of NotJSON \<Rightarrow> zero_envelope | JSON e \<Rightarrow> e)"

subsection \<open>Errors, outcomes and the process state\<close>

text \<open>
  The error values a handler returns: the transport's error passed on as it is
  (\<open>HttpError\<close>), \<^verbatim>\<open>errors.New(rp.Error)\<close> (\<open>ErrorsNew\<close>), the error of
  \<^verbatim>\<open>os.Open\<close> (\<open>OsError\<close>) and
  \<^verbatim>\<open>fmt.Errorf("Unknown record type %q, expected 'stream' or 'query'", args[0])\<close>
  (\<open>UnknownRecordType\<close>, holding \<^verbatim>\<open>args[0]\<close>).
\<close>

datatype error = HttpError string | ErrorsNew string | OsError string | UnknownRecordType string

text \<open>
  A handler returns an error or nil (\<open>Return\<close>), ends the process with
  \<^verbatim>\<open>os.Exit(code)\<close> (\<open>Exit\<close>), or panics on \<^verbatim>\<open>args[0]\<close> of an empty slice.
\<close>

datatype outcome = Return "error option" | Exit nat | Panic

datatype usage_text =
    usageStr | helpUsageText | recordUsageText | defineUsageText | replayUsageText
  | enableUsageText | disableUsageText | listUsageText | deleteUsageText | levelUsageText
  | versionUsageText

datatype flag_set = recordFlags | defineFlags | replayFlags

text \<open>
  What is written to standard error, one entry per call: \<^verbatim>\<open>fmt.Fprintln\<close> with its
  string operands, \<^verbatim>\<open>fmt.Fprintln\<close> of one of the usage texts of the source (named, not
  spelt out), \<^verbatim>\<open>fmt.Fprintln\<close> of an error, a flag set's \<^verbatim>\<open>PrintDefaults\<close>, and
  the logger's \<^verbatim>\<open>Println\<close> (which stamps the line with the time).
\<close>

datatype stderr_write =
    Fprintln "string list"
  | FprintlnUsage usage_text
  | FprintlnError error
  | PrintDefaults flag_set
  | LogPrintln "string list"

record world =
  requests :: "http_request list"
  stdout :: string
  stderr :: "stderr_write list"

definition world0 :: world where
  "world0 = \<lparr>requests = [], stdout = [], stderr = []\<rparr>"

definition to_stderr :: "stderr_write list \<Rightarrow> world \<Rightarrow> world" where
  "to_stderr xs w = w\<lparr>stderr := stderr w @ xs\<rparr>"

definition to_stdout :: "string \<Rightarrow> world \<Rightarrow> world" where
  "to_stdout s w = w\<lparr>stdout := stdout w @ s\<rparr>"

text \<open>\<^verbatim>\<open>fmt.Println(s)\<close> writes the string and a newline.\<close>

definition Println :: "string \<Rightarrow> world \<Rightarrow> world" where
  "Println s w = to_stdout (s @ [CHR 0x0A]) w"

text \<open>
  The error with which the transport of \<^verbatim>\<open>net/http\<close> refuses a request whose URL has
  a scheme other than \<^verbatim>\<open>http\<close> and \<^verbatim>\<open>https\<close>:
  \<^verbatim>\<open>unsupported protocol scheme\<close> followed by the scheme in double quotes. (The client
  returns it inside a \<^verbatim>\<open>url.Error\<close>, which puts the method and the URL in front of
  this text when the error is printed.)
\<close>

definition unsupported_protocol_scheme :: "string \<Rightarrow> string" where
  "unsupported_protocol_scheme scheme =
     ''unsupported protocol scheme '' @ [CHR 0x22] @ scheme @ [CHR 0x22]"

text \<open>
  One round trip through the HTTP client (\<^verbatim>\<open>http.Post\<close>, \<^verbatim>\<open>http.Get\<close>,
  \<^verbatim>\<open>client.Do\<close>). The request is handed to the client, which is recorded in
  \<open>requests\<close> whether or not it succeeds. The client's transport refuses, before any
  network traffic, a URL whose scheme is neither \<^verbatim>\<open>http\<close> nor \<^verbatim>\<open>https\<close>;
  every other request is answered by the service.
\<close>

definition roundtrip :: "service \<Rightarrow> http_request \<Rightarrow> world \<Rightarrow> http_result \<times> world" where
  "roundtrip srv rq w =
     (let w' = w\<lparr>requests := requests w @ [rq]\<rparr>;
          scheme = Scheme (url rq)
      in if scheme = ''http'' \<or> scheme = ''https'' then (srv (requests w) rq, w')
         else (TransportError (unsupported_protocol_scheme scheme), w'))"

definition Post :: "service \<Rightarrow> string \<Rightarrow> string \<Rightarrow> string option \<Rightarrow> world \<Rightarrow> http_result \<times> world" where
  "Post srv u ct b w =
     roundtrip srv \<lparr>req_method = POST, url = u, content_type = Some ct, body = b\<rparr> w"

definition Get :: "service \<Rightarrow> string \<Rightarrow> world \<Rightarrow> http_result \<times> world" where
  "Get srv u w = roundtrip srv \<lparr>req_method = GET, url = u, content_type = None, body = None\<rparr> w"

text \<open>
  \<^verbatim>\<open>http.NewRequest("DELETE", u, nil)\<close> followed by \<^verbatim>\<open>client.Do(req)\<close>.
  \<^verbatim>\<open>NewRequest\<close> fails only on a URL that does not parse; the URLs of \<^verbatim>\<open>doDelete\<close>
  are a constant (possibly empty) followed by escaped text, which always parses. A URL
  that parses but has no scheme is refused by \<^verbatim>\<open>client.Do\<close>, in \<open>roundtrip\<close>.
\<close>

definition Delete :: "service \<Rightarrow> string \<Rightarrow> world \<Rightarrow> http_result \<times> world" where
  "Delete srv u w =
     roundtrip srv \<lparr>req_method = DELETE, url = u, content_type = None, body = None\<rparr> w"

subsection \<open>Usage texts\<close>

text \<open>\<^verbatim>\<open>usage()\<close> prints the general usage text and ends the process with code 1.\<close>

definition usage :: "world \<Rightarrow> outcome \<times> world" where
  "usage w = (Exit 1, to_stderr [FprintlnUsage usageStr] w)"

definition helpUsage :: "world \<Rightarrow> world" where
  "helpUsage w = to_stderr [FprintlnUsage helpUsageText] w"

definition recordUsage :: "world \<Rightarrow> world" where
  "recordUsage w = to_stderr [FprintlnUsage recordUsageText, PrintDefaults recordFlags] w"

definition defineUsage :: "world \<Rightarrow> world" where
  "defineUsage w = to_stderr [FprintlnUsage defineUsageText, PrintDefaults defineFlags] w"

definition replayUsage :: "world \<Rightarrow> world" where
  "replayUsage w = to_stderr [FprintlnUsage replayUsageText, PrintDefaults replayFlags] w"

definition enableUsage :: "world \<Rightarrow> world" where
  "enableUsage w = to_stderr [FprintlnUsage enableUsageText] w"

definition disableUsage :: "world \<Rightarrow> world" where
  "disableUsage w = to_stderr [FprintlnUsage disableUsageText] w"

definition listUsage :: "world \<Rightarrow> world" where
  "listUsage w = to_stderr [FprintlnUsage listUsageText] w"

definition deleteUsage :: "world \<Rightarrow> world" where
  "deleteUsage w = to_stderr [FprintlnUsage deleteUsageText] w"

definition levelUsage :: "world \<Rightarrow> world" where
  "levelUsage w = to_stderr [FprintlnUsage levelUsageText] w"

definition versionUsage :: "world \<Rightarrow> world" where
  "versionUsage w = to_stderr [FprintlnUsage versionUsageText] w"

subsection \<open>help\<close>

definition doHelp :: "string list \<Rightarrow> world \<Rightarrow> outcome \<times> world" where
  "doHelp args w =
     (if length args = 1 then
        (let command = hd args in
         if command = ''record'' then (Return None, recordUsage w)
         else if command = ''define'' then (Return None, defineUsage w)
         else if command = ''replay'' then (Return None, replayUsage w)
         else if command = ''enable'' then (Return None, enableUsage w)
         else if command = ''disable'' then (Return None, disableUsage w)
         else if command = ''delete'' then (Return None, deleteUsage w)
         else if command = ''list'' then (Return None, listUsage w)
         else if command = ''level'' then (Return None, levelUsage w)
         else if command = ''help'' then (Return None, helpUsage w)
         else if command = ''version'' then (Return None, versionUsage w)
         else usage (to_stderr [Fprintln [''Unknown command'', command]] w))
      else (Return None, helpUsage w))"

subsection \<open>record\<close>

text \<open>
  The flag variables of \<^verbatim>\<open>recordFlags\<close>. \<^verbatim>\<open>rnum\<close> is a Go \<^verbatim>\<open>int\<close>, which
  \<^verbatim>\<open>doRecord\<close> converts to \<^verbatim>\<open>int64\<close>; \<^verbatim>\<open>rdur\<close> is a \<^verbatim>\<open>time.Duration\<close>, a
  number of nanoseconds, rendered by its \<^verbatim>\<open>String\<close> method, which is a parameter of
  the handler.
\<close>

type_synonym Duration = int64

record record_flags =
  raddr :: string
  rname :: string
  rstart :: string
  rnum :: int64
  rquery :: string
  rtype :: string
  rdur :: Duration

text \<open>
  The \<^verbatim>\<open>switch\<close> of \<^verbatim>\<open>doRecord\<close>: the query parameters of the mode, or \<open>None\<close>
  in the \<^verbatim>\<open>default\<close> branch.
\<close>

definition record_values ::
  "(Duration \<Rightarrow> string) \<Rightarrow> record_flags \<Rightarrow> string \<Rightarrow> Values option" where
  "record_values Duration_String fl mode =
     (let v = Add [] ''type'' mode in
      if mode = ''stream'' then
        Some (Add v ''duration'' (Duration_String (rdur fl)))
      else if mode = ''batch'' then
        Some (Add (Add (Add (Add v ''name'' (rname fl)) ''start'' (rstart fl))
                       ''num'' (FormatInt (rnum fl))) ''addr'' (raddr fl))
      else if mode = ''query'' then
        Some (Add (Add v ''qtype'' (rtype fl)) ''addr'' (raddr fl))
      else None)"

definition doRecord ::
  "service \<Rightarrow> (Duration \<Rightarrow> string) \<Rightarrow> record_flags \<Rightarrow> string list \<Rightarrow> world
     \<Rightarrow> outcome \<times> world" where
  "doRecord srv Duration_String fl args w =
     (case args of
        [] \<Rightarrow> (Panic, w)
      | mode # _ \<Rightarrow>
         (case record_values Duration_String fl mode of
            None \<Rightarrow> (Return (Some (UnknownRecordType mode)), w)
          | Some v \<Rightarrow>
             (case Post srv (''http://localhost:9092/record?'' @ Encode v)
                        ''application/octetstream'' None w of
                (TransportError e, w') \<Rightarrow> (Return (Some (HttpError e)), w')
              | (Response b, w') \<Rightarrow>
                 (let rp = Decode b in
                  if Error rp \<noteq> [] then (Return (Some (ErrorsNew (Error rp))), w')
                  else (Return None, Println (RecordingID rp) w')))))"

subsection \<open>define\<close>

record define_flags =
  dname :: string
  dtick :: string
  dtype :: string

text \<open>
  \<^verbatim>\<open>os.Open\<close> is a parameter: it gives the error or the contents of the file, which
  \<^verbatim>\<open>http.Post\<close> reads as the body of the request. The condition of the first test is
  the source's: it reads \<^verbatim>\<open>*dtick\<close> twice and never \<^verbatim>\<open>*dtype\<close>.
\<close>

definition doDefine ::
  "service \<Rightarrow> (string \<Rightarrow> string + string) \<Rightarrow> define_flags \<Rightarrow> string list \<Rightarrow> world
     \<Rightarrow> outcome \<times> world" where
  "doDefine srv os_Open fl args w =
     (if dtick fl = [] \<or> dname fl = [] \<or> dtick fl = [] then
        (Exit 2, defineUsage (to_stderr [Fprintln [''Must pass name,tick and type options.'']] w))
      else
        (case os_Open (dtick fl) of
           Inl e \<Rightarrow> (Return (Some (OsError e)), w)
         | Inr f \<Rightarrow>
            (let v = Add (Add [] ''name'' (dname fl)) ''type'' (dtype fl) in
             case Post srv (''http://localhost:9092/task?'' @ Encode v)
                       ''application/octetstream'' (Some f) w of
               (TransportError e, w') \<Rightarrow> (Return (Some (HttpError e)), w')
             | (Response b, w') \<Rightarrow>
                (let rp = Decode b in
                 if Error rp \<noteq> [] then (Return (Some (ErrorsNew (Error rp))), w')
                 else (Return None, w')))))"

subsection \<open>replay\<close>

record replay_flags =
  rtname :: string
  rid :: string
  rfast :: bool

definition doReplay ::
  "service \<Rightarrow> replay_flags \<Rightarrow> string list \<Rightarrow> world \<Rightarrow> outcome \<times> world" where
  "doReplay srv fl args w =
     (let v = Add (Add [] ''name'' (rtname fl)) ''id'' (rid fl);
          v = (if rfast fl then Add v ''clock'' ''fast'' else v) in
      case Post srv (''http://localhost:9092/replay?'' @ Encode v)
                ''application/octetstream'' None w of
        (TransportError e, w') \<Rightarrow> (Return (Some (HttpError e)), w')
      | (Response b, w') \<Rightarrow>
         (let rp = Decode b in
          if Error rp \<noteq> [] then (Return (Some (ErrorsNew (Error rp))), w')
          else (Return None, w')))"

subsection \<open>enable and disable\<close>

text \<open>The loop of \<^verbatim>\<open>doEnable\<close> over the names that are left.\<close>

fun enable_loop :: "service \<Rightarrow> string list \<Rightarrow> world \<Rightarrow> outcome \<times> world" where
  "enable_loop srv [] w = (Return None, w)"
| "enable_loop srv (name # rest) w =
     (let v = Add [] ''name'' name in
      case Post srv (''http://localhost:9092/enable?'' @ Encode v)
                ''application/octetstream'' None w of
        (TransportError e, w') \<Rightarrow> (Return (Some (HttpError e)), w')
      | (Response b, w') \<Rightarrow>
         (let rp = Decode b in
          if Error rp \<noteq> [] then (Return (Some (ErrorsNew (Error rp))), w')
          else enable_loop srv rest w'))"

definition doEnable :: "service \<Rightarrow> string list \<Rightarrow> world \<Rightarrow> outcome \<times> world" where
  "doEnable srv args w =
     (if length args < 1 then
        (Exit 2, enableUsage (to_stderr [Fprintln [''Must pass at least one task name'']] w))
      else enable_loop srv args w)"

text \<open>
  The loop of \<^verbatim>\<open>doDisable\<close>: its body ends with \<^verbatim>\<open>return nil\<close>, so the names after
  the first are never reached.
\<close>

fun disable_loop :: "service \<Rightarrow> string list \<Rightarrow> world \<Rightarrow> outcome \<times> world" where
  "disable_loop srv [] w = (Return None, w)"
| "disable_loop srv (name # rest) w =
     (let v = Add [] ''name'' name in
      case Post srv (''http://localhost:9092/disable?'' @ Encode v)
                ''application/octetstream'' None w of
        (TransportError e, w') \<Rightarrow> (Return (Some (HttpError e)), w')
      | (Response b, w') \<Rightarrow>
         (let rp = Decode b in
          if Error rp \<noteq> [] then (Return (Some (ErrorsNew (Error rp))), w')
          else (Return None, w')))"

definition doDisable :: "service \<Rightarrow> string list \<Rightarrow> world \<Rightarrow> outcome \<times> world" where
  "doDisable srv args w =
     (if length args < 1 then
        (Exit 2, disableUsage (to_stderr [Fprintln [''Must pass at least one task name'']] w))
      else disable_loop srv args w)"

subsection \<open>list\<close>

text \<open>
  The operands of the \<^verbatim>\<open>fmt.Fprintf\<close> calls: a string, a \<^verbatim>\<open>TaskType\<close>, a bool, and
  the \<^verbatim>\<open>float64\<close> value \<^verbatim>\<open>float64(r.Size)/1024.0/1024.0\<close>, kept as the size it is
  computed from (\<open>MiB\<close>). The rendering of a format with its operands is the
  \<^verbatim>\<open>fmt\<close> package's and a parameter of the handlers that print.
\<close>

datatype fmt_arg = Str string | TType TaskType | Bool bool | MiB int64

type_synonym sprintf = "string \<Rightarrow> fmt_arg list \<Rightarrow> string"

definition Fprintf :: "sprintf \<Rightarrow> string \<Rightarrow> fmt_arg list \<Rightarrow> world \<Rightarrow> world" where
  "Fprintf Sprintf format operands w = to_stdout (Sprintf format operands) w"

definition doList :: "service \<Rightarrow> sprintf \<Rightarrow> string list \<Rightarrow> world \<Rightarrow> outcome \<times> world" where
  "doList srv Sprintf args w =
     (if length args = 0 then
        (Exit 2,
         listUsage (to_stderr
           [Fprintln [''Must specify 'tasks' or 'recordings'' @ [CHR 0x27]]] w))
      else if hd args = ''tasks'' then
        (let tasks = Join (tl args) '','';
             v = Add [] ''tasks'' tasks in
         case Get srv (''http://localhost:9092/tasks?'' @ Encode v) w of
           (TransportError e, w') \<Rightarrow> (Return (Some (HttpError e)), w')
         | (Response b, w') \<Rightarrow>
            (let rp = Decode b in
             if Error rp \<noteq> [] then (Return (Some (ErrorsNew (Error rp))), w')
             else
               (let outFmt = ''%-30s%-10v%-10v\<newline>'';
                    w1 = Fprintf Sprintf outFmt [Str ''Name'', Str ''Type'', Str ''Enabled''] w'
                in (Return None,
                    fold (\<lambda>t. Fprintf Sprintf outFmt
                                 [Str (task_Name t), TType (task_Type t), Bool (task_Enabled t)])
                         (Tasks rp) w1))))
      else if hd args = ''recordings'' then
        (let rids = Join (tl args) '','';
             v = Add [] ''rids'' rids in
         case Get srv (''http://localhost:9092/recordings?'' @ Encode v) w of
           (TransportError e, w') \<Rightarrow> (Return (Some (HttpError e)), w')
         | (Response b, w') \<Rightarrow>
            (let rp = Decode b in
             if Error rp \<noteq> [] then (Return (Some (ErrorsNew (Error rp))), w')
             else
               (let outFmt = ''%-40s%-10v%15.2f\<newline>'';
                    w1 = Fprintf Sprintf ''%-40s%-10s%15s\<newline>''
                           [Str ''ID'', Str ''Type'', Str ''Size (MB)''] w'
                in (Return None,
                    fold (\<lambda>r. Fprintf Sprintf outFmt
                                 [Str (recording_ID r), TType (recording_Type r),
                                  MiB (recording_Size r)])
                         (Recordings rp) w1))))
      else (Return None, w))"

subsection \<open>delete\<close>

text \<open>
  The loop of \<^verbatim>\<open>doDelete\<close> over \<^verbatim>\<open>args[1:]\<close>. The URL of a request is
  \<^verbatim>\<open>baseURL+v.Encode()\<close>: the source puts nothing between the two.
\<close>

fun delete_loop ::
  "service \<Rightarrow> string \<Rightarrow> string \<Rightarrow> string list \<Rightarrow> world \<Rightarrow> outcome \<times> world" where
  "delete_loop srv baseURL paramName [] w = (Return None, w)"
| "delete_loop srv baseURL paramName (arg # rest) w =
     (let v = Add [] paramName arg in
      case Delete srv (baseURL @ Encode v) w of
        (TransportError e, w') \<Rightarrow> (Return (Some (HttpError e)), w')
      | (Response b, w') \<Rightarrow>
         (let rp = Decode b in
          if Error rp \<noteq> [] then (Return (Some (ErrorsNew (Error rp))), w')
          else delete_loop srv baseURL paramName rest w'))"

text \<open>
  The \<^verbatim>\<open>switch\<close> on \<^verbatim>\<open>args[0]\<close> has no \<^verbatim>\<open>default\<close>: for another kind both
  variables keep their zero value, the empty string. The usage text printed on too few
  arguments is the source's, that of enable. \<^verbatim>\<open>l.Println(args)\<close> logs the arguments
  to standard error.
\<close>

definition doDelete :: "service \<Rightarrow> string list \<Rightarrow> world \<Rightarrow> outcome \<times> world" where
  "doDelete srv args w =
     (if length args < 2 then
        (Exit 2,
         enableUsage (to_stderr
           [Fprintln [''Must pass at least one task name or recording ID'']] w))
      else
        (let (baseURL, paramName) =
               (if hd args = ''task'' then (''http://localhost:9092/task'', ''name'')
                else if hd args = ''recording'' then (''http://localhost:9092/recording'', ''rid'')
                else ([], []))
         in delete_loop srv baseURL paramName (tl args) (to_stderr [LogPrintln args] w)))"

subsection \<open>level and version\<close>

definition doLevel :: "service \<Rightarrow> string list \<Rightarrow> world \<Rightarrow> outcome \<times> world" where
  "doLevel srv args w =
     (if length args = 0 then
        (Exit 2, levelUsage (to_stderr [Fprintln [''Must pass a log level'']] w))
      else
        (let v = Add [] ''level'' (hd args) in
         case Post srv (''http://localhost:9092/loglevel?'' @ Encode v) ''text/plain'' None w of
           (TransportError e, w') \<Rightarrow> (Return (Some (HttpError e)), w')
         | (Response b, w') \<Rightarrow>
            (let rp = Decode b in
             if Error rp \<noteq> [] then (Return (Some (ErrorsNew (Error rp))), w')
             else (Return None, w'))))"

text \<open>The three variables that the linker populates.\<close>

record build_info =
  version :: string
  commit :: string
  branch :: string

definition doVersion :: "sprintf \<Rightarrow> build_info \<Rightarrow> string list \<Rightarrow> world \<Rightarrow> outcome \<times> world" where
  "doVersion Sprintf bi args w =
     (Return None,
      Fprintf Sprintf ''Kapacitor %s (git: %s %s)\<newline>''
        [Str (version bi), Str (branch bi), Str (commit bi)] w)"

subsection \<open>The dispatcher\<close>

text \<open>
  What surrounds the program: the service, the renderers of \<^verbatim>\<open>fmt\<close> and of
  \<^verbatim>\<open>time.Duration\<close>, the file system, the build variables, and the \<^verbatim>\<open>flag\<close>
  package's \<^verbatim>\<open>Parse\<close> for each of the three flag sets. The flag sets are created with
  \<^verbatim>\<open>flag.ExitOnError\<close>, so \<^verbatim>\<open>Parse\<close> either gives the values of the flags and the
  arguments left over (\<^verbatim>\<open>Args()\<close>), or it writes to standard error and ends the
  process.
\<close>

datatype 'f parsed = Parsed 'f "string list" | ParseExit nat "stderr_write list"

record environment =
  env_service :: service
  env_Sprintf :: sprintf
  env_Duration_String :: "Duration \<Rightarrow> string"
  env_os_Open :: "string \<Rightarrow> string + string"
  env_build :: build_info
  env_record_Parse :: "string list \<Rightarrow> record_flags parsed"
  env_define_Parse :: "string list \<Rightarrow> define_flags parsed"
  env_replay_Parse :: "string list \<Rightarrow> replay_flags parsed"

text \<open>
  The end of \<^verbatim>\<open>main\<close>: an error is printed to standard error and the process ends
  with code 3; after nil, \<^verbatim>\<open>main\<close> returns and the process ends with code 0.
\<close>

definition finish :: "outcome \<times> world \<Rightarrow> outcome \<times> world" where
  "finish rw =
     (case rw of
        (Return None, w) \<Rightarrow> (Exit 0, w)
      | (Return (Some err), w) \<Rightarrow> (Exit 3, to_stderr [FprintlnError err] w)
      | (r, w) \<Rightarrow> (r, w))"

definition main :: "environment \<Rightarrow> string list \<Rightarrow> world \<Rightarrow> outcome \<times> world" where
  "main E os_Args w =
     (case os_Args of
        [] \<Rightarrow> (Panic, w)
      | [prog] \<Rightarrow> usage (to_stderr [Fprintln [''Error: Must pass a command.'']] w)
      | prog # command # args \<Rightarrow>
         (if command = ''help'' then finish (doHelp args w)
          else if command = ''record'' then
            (if length args = 0 then (Exit 2, recordUsage w)
             else
               (case env_record_Parse E (tl args) of
                  ParseExit code out \<Rightarrow> (Exit code, to_stderr out w)
                | Parsed fl rest \<Rightarrow>
                   finish (doRecord (env_service E) (env_Duration_String E) fl (take 1 args) w)))
          else if command = ''define'' then
            (case env_define_Parse E args of
               ParseExit code out \<Rightarrow> (Exit code, to_stderr out w)
             | Parsed fl rest \<Rightarrow> finish (doDefine (env_service E) (env_os_Open E) fl rest w))
          else if command = ''replay'' then
            (case env_replay_Parse E args of
               ParseExit code out \<Rightarrow> (Exit code, to_stderr out w)
             | Parsed fl rest \<Rightarrow> finish (doReplay (env_service E) fl rest w))
          else if command = ''enable'' then finish (doEnable (env_service E) args w)
          else if command = ''disable'' then finish (doDisable (env_service E) args w)
          else if command = ''delete'' then finish (doDelete (env_service E) args w)
          else if command = ''list'' then finish (doList (env_service E) (env_Sprintf E) args w)
          else if command = ''level'' then finish (doLevel (env_service E) args w)
          else if command = ''version'' then
            finish (doVersion (env_Sprintf E) (env_build E) args w)
          else usage (to_stderr [Fprintln [''Unknown command'', command]] w)))"

subsection \<open>What the service reads from a URL: net/url's Parse and ParseQuery\<close>

text \<open>
  The query of a URL (the field \<^verbatim>\<open>RawQuery\<close> of the parsed URL): the fragment is cut
  off at the first \<^verbatim>\<open>#\<close>, the query is what follows the first \<^verbatim>\<open>?\<close> of the rest,
  and is empty when there is no \<^verbatim>\<open>?\<close>.
\<close>

definition RawQuery :: "string \<Rightarrow> string" where
  "RawQuery rawURL =
     (case snd (Cut (fst (Cut rawURL CHR ''#'')) CHR ''?'') of None \<Rightarrow> [] | Some q \<Rightarrow> q)"

text \<open>
  The path of a URL, in its escaped form: what precedes the query, without the scheme and,
  after \<^verbatim>\<open>//\<close>, without the authority, which ends at the next \<^verbatim>\<open>/\<close>.
\<close>

definition EscapedPath :: "string \<Rightarrow> string" where
  "EscapedPath rawURL =
     (let front = fst (Cut (fst (Cut rawURL CHR ''#'')) CHR ''?'');
          rest = (case getScheme front of None \<Rightarrow> front | Some (scheme, r) \<Rightarrow> r)
      in if take 2 rest = ''//'' then dropWhile (\<lambda>c. c \<noteq> CHR ''/'') (drop 2 rest) else rest)"

definition ishex :: "char \<Rightarrow> bool" where
  "ishex c =
     (let n = (of_char c :: nat) in
      (48 \<le> n \<and> n \<le> 57) \<or> (97 \<le> n \<and> n \<le> 102) \<or> (65 \<le> n \<and> n \<le> 70))"

definition unhex :: "char \<Rightarrow> nat" where
  "unhex c =
     (let n = (of_char c :: nat) in
      if 48 \<le> n \<and> n \<le> 57 then n - 48
      else if 97 \<le> n \<and> n \<le> 102 then n - 97 + 10
      else if 65 \<le> n \<and> n \<le> 70 then n - 65 + 10
      else 0)"

text \<open>
  \<^verbatim>\<open>QueryUnescape\<close>: \<^verbatim>\<open>+\<close> is a space, \<^verbatim>\<open>%\<close> with two hexadecimal digits is
  the byte they denote, and \<^verbatim>\<open>%\<close> followed by anything else is an error (\<open>None\<close>).
\<close>

fun QueryUnescape :: "string \<Rightarrow> string option" where
  "QueryUnescape [] = Some []"
| "QueryUnescape (c # s) =
     (if c = CHR ''%'' then
        (case s of
           h1 # h2 # r \<Rightarrow>
             if ishex h1 \<and> ishex h2
             then map_option ((#) (char_of (unhex h1 * 16 + unhex h2))) (QueryUnescape r)
             else None
         | _ \<Rightarrow> None)
      else map_option ((#) (if c = CHR ''+'' then CHR '' '' else c)) (QueryUnescape s))"

text \<open>The pieces of a query between its \<^verbatim>\<open>&\<close> separators.\<close>

fun pieces :: "string \<Rightarrow> string list" where
  "pieces [] = [[]]"
| "pieces (c # s) =
     (if c = CHR ''&'' then [] # pieces s
      else (case pieces s of p # ps \<Rightarrow> (c # p) # ps | [] \<Rightarrow> [[c]]))"

text \<open>
  \<^verbatim>\<open>ParseQuery\<close>: every piece that is not empty is cut at its first \<^verbatim>\<open>=\<close>, both
  sides are unescaped and the value is appended to the key's list. A piece with a
  semicolon or with a bad escape is skipped and makes the result an error; the result is
  the values together with whether there was no error. (Early versions of the package
  split a query at semicolons as well; the two agree on a query without semicolons, and
  \<^verbatim>\<open>Encode\<close> writes none.)
\<close>

definition parse_piece :: "string \<Rightarrow> Values \<times> bool \<Rightarrow> Values \<times> bool" where
  "parse_piece p mb =
     (if CHR '';'' \<in> set p then (fst mb, False)
      else if p = [] then mb
      else
        (let (key, val) = Cut p CHR ''='' in
         case QueryUnescape key of
           None \<Rightarrow> (fst mb, False)
         | Some k \<Rightarrow>
            (case QueryUnescape (case val of None \<Rightarrow> [] | Some x \<Rightarrow> x) of
               None \<Rightarrow> (fst mb, False)
             | Some x \<Rightarrow> (Add (fst mb) k x, snd mb))))"

definition ParseQuery :: "string \<Rightarrow> Values \<times> bool" where
  "ParseQuery query = fold parse_piece (pieces query) ([], True)"

section \<open>Properties of the query strings\<close>

subsection \<open>Escaped text and the round trip through ParseQuery\<close>

lemma of_char_lt_256: "(of_char c :: nat) < 256"
  by (cases c) (simp add: of_char_def horner_sum_eq_sum of_bool_def)

lemma hex_digit_cases:
  assumes "k < (16::nat)"
  shows "k \<in> {0,1,2,3,4,5,6,7,8,9,10,11,12,13,14,15}"
  using assms by simp arith

lemma upperhex_nth:
  assumes "k < 16"
  shows "ishex (upperhex ! k) \<and> unhex (upperhex ! k) = k \<and> upperhex ! k \<in> set upperhex"
  using hex_digit_cases [OF assms]
  by (auto simp: upperhex_def ishex_def unhex_def)

lemma upperhex_safe: "c \<in> set upperhex \<Longrightarrow> c \<notin> set ''#?&=;''"
  by (auto simp: upperhex_def)

lemma unreserved_safe: "\<not> shouldEscape c \<Longrightarrow> c \<notin> set ''#?&=;%+ ''"
  by (auto simp: shouldEscape_def)

lemma escape_byte_safe: "c \<in> set (escape_byte c0) \<Longrightarrow> c \<notin> set ''#?&=;''"
proof -
  assume a: "c \<in> set (escape_byte c0)"
  have d: "(of_char c0 :: nat) div 16 < 16" using of_char_lt_256 [of c0] by arith
  have m: "(of_char c0 :: nat) mod 16 < 16" by simp
  show ?thesis
  proof (cases "c0 = CHR '' ''")
    case True
    with a show ?thesis by (simp add: escape_byte_def)
  next
    case False
    show ?thesis
    proof (cases "shouldEscape c0")
      case True
      with False a have "c = CHR ''%'' \<or> c \<in> set upperhex"
        using upperhex_nth [OF d] upperhex_nth [OF m] by (auto simp: escape_byte_def)
      then show ?thesis using upperhex_safe [of c] by auto
    next
      case e: False
      with False a have "c = c0" by (simp add: escape_byte_def)
      with e show ?thesis using unreserved_safe [of c0] by auto
    qed
  qed
qed

lemma QueryEscape_safe: "c \<in> set (QueryEscape s) \<Longrightarrow> c \<notin> set ''#?&=;''"
  unfolding QueryEscape_def using escape_byte_safe by fastforce

lemma QueryUnescape_escape_byte:
  "QueryUnescape (escape_byte c @ t) = map_option ((#) c) (QueryUnescape t)"
proof -
  have d: "(of_char c :: nat) div 16 < 16" using of_char_lt_256 [of c] by arith
  have m: "(of_char c :: nat) mod 16 < 16" by simp
  show ?thesis
  proof (cases "c = CHR '' ''")
    case True
    then show ?thesis by (simp add: escape_byte_def)
  next
    case False
    show ?thesis
    proof (cases "shouldEscape c")
      case True
      with False show ?thesis
        using upperhex_nth [OF d] upperhex_nth [OF m] by (simp add: escape_byte_def)
    next
      case e: False
      then have "c \<noteq> CHR ''%''" "c \<noteq> CHR ''+''" using unreserved_safe [of c] by auto
      with False e show ?thesis by (simp add: escape_byte_def)
    qed
  qed
qed

lemma QueryUnescape_QueryEscape_append:
  "QueryUnescape (QueryEscape s) = Some s"
  by (induction s) (simp_all add: QueryEscape_def QueryUnescape_escape_byte del: QueryUnescape.simps(2))


lemma pieces_no_amp: "CHR ''&'' \<notin> set x \<Longrightarrow> pieces x = [x]"
  by (induction x) auto

lemma pieces_append_amp:
  "CHR ''&'' \<notin> set x \<Longrightarrow> pieces (x @ CHR ''&'' # rest) = x # pieces rest"
  by (induction x) auto

lemma Cut_at_sep: "sep \<notin> set k \<Longrightarrow> Cut (k @ sep # v) sep = (k, Some v)"
  by (induction k) (auto simp: Cut_def)

lemma Cut_no_sep: "sep \<notin> set k \<Longrightarrow> Cut k sep = (k, None)"
  by (induction k) (auto simp: Cut_def)

lemma parse_piece_pair:
  "parse_piece (QueryEscape k @ CHR ''='' # QueryEscape x) mb = (Add (fst mb) k x, snd mb)"
proof -
  have s: "CHR '';'' \<notin> set (QueryEscape k @ CHR ''='' # QueryEscape x)"
    using QueryEscape_safe [of "CHR '';''" k] QueryEscape_safe [of "CHR '';''" x] by auto
  have e: "CHR ''='' \<notin> set (QueryEscape k)"
    using QueryEscape_safe [of "CHR ''=''" k] by auto
  show ?thesis
    using s by (simp add: parse_piece_def Cut_at_sep [OF e] QueryUnescape_QueryEscape_append)
qed

lemma pair_no_amp: "CHR ''&'' \<notin> set (QueryEscape k @ CHR ''='' # QueryEscape x)"
  using QueryEscape_safe [of "CHR ''&''" k] QueryEscape_safe [of "CHR ''&''" x] by auto

lemma fold_parse_piece_Join:
  "fold parse_piece
     (pieces (Join (map (\<lambda>(k, x). QueryEscape k @ CHR ''='' # QueryEscape x) kvs) ''&'')) mb =
   (fold (\<lambda>(k, x) m. Add m k x) kvs (fst mb), snd mb)"
proof (induction kvs arbitrary: mb)
  case Nil
  show ?case by (simp add: parse_piece_def)
next
  case (Cons kv kvs)
  obtain k x where kv: "kv = (k, x)" by (cases kv)
  show ?case
  proof (cases kvs)
    case Nil
    then show ?thesis
      by (simp add: kv pieces_no_amp [OF pair_no_amp] parse_piece_pair)
  next
    case (Cons kv' kvs')
    have "Join (map (\<lambda>(k, x). QueryEscape k @ CHR ''='' # QueryEscape x) (kv # kvs)) ''&'' =
          (QueryEscape k @ CHR ''='' # QueryEscape x) @ CHR ''&'' #
          Join (map (\<lambda>(k, x). QueryEscape k @ CHR ''='' # QueryEscape x) kvs) ''&''"
      by (simp add: kv Cons)
    then have "pieces (Join (map (\<lambda>(k, x). QueryEscape k @ CHR ''='' # QueryEscape x) (kv # kvs)) ''&'') =
          (QueryEscape k @ CHR ''='' # QueryEscape x) #
          pieces (Join (map (\<lambda>(k, x). QueryEscape k @ CHR ''='' # QueryEscape x) kvs) ''&'')"
      by (simp only: pieces_append_amp [OF pair_no_amp])
    then show ?thesis
      using Cons.IH [of "(Add (fst mb) k x, snd mb)"]
      by (simp add: parse_piece_pair kv)
  qed
qed

lemma Encode_as_Join:
  "Encode v =
   Join (map (\<lambda>(k, x). QueryEscape k @ CHR ''='' # QueryEscape x)
             (concat (map (\<lambda>(k, vs). map (Pair k) vs) (sort_key fst v)))) ''&''"
proof -
  have "concat (map (\<lambda>(k, vs). map (\<lambda>x. QueryEscape k @ ''='' @ QueryEscape x) vs) xs) =
        map (\<lambda>(k, x). QueryEscape k @ CHR ''='' # QueryEscape x)
            (concat (map (\<lambda>(k, vs). map (Pair k) vs) xs))" for xs :: Values
    by (induction xs) (auto simp: comp_def)
  then show ?thesis by (simp add: Encode_def)
qed

lemma ParseQuery_Encode:
  "ParseQuery (Encode v) =
   (fold (\<lambda>(k, x) m. Add m k x) (concat (map (\<lambda>(k, vs). map (Pair k) vs) (sort_key fst v))) [],
    True)"
  by (simp add: ParseQuery_def Encode_as_Join fold_parse_piece_Join)

lemma in_set_Join:
  "c \<in> set (Join xs sep) \<Longrightarrow> c \<in> set sep \<or> (\<exists>x\<in>set xs. c \<in> set x)"
  by (induction xs sep rule: Join.induct) auto

lemma Encode_chars: "c \<in> set (Encode v) \<Longrightarrow> c \<notin> set ''#?;''"
proof -
  assume "c \<in> set (Encode v)"
  then have "c = CHR ''&'' \<or> (\<exists>k x. c \<in> set (QueryEscape k @ CHR ''='' # QueryEscape x))"
    unfolding Encode_as_Join by (auto dest!: in_set_Join)
  then show ?thesis
    using QueryEscape_safe [of c] by auto
qed

lemma RawQuery_Encode:
  assumes "CHR ''#'' \<notin> set base" "CHR ''?'' \<notin> set base"
  shows "RawQuery (base @ CHR ''?'' # Encode v) = Encode v"
proof -
  have h: "CHR ''#'' \<notin> set (base @ CHR ''?'' # Encode v)"
    using assms Encode_chars [of "CHR ''#''" v] by auto
  show ?thesis
    by (simp add: RawQuery_def Cut_no_sep [OF h] Cut_at_sep [OF assms(2)])
qed

subsection \<open>Decimal numbers need no escaping\<close>

declare digits.simps [simp del]

lemma digits_chars: "c \<in> set (digits n) \<Longrightarrow> c \<in> set ''0123456789''"
proof (induction n rule: digits.induct)
  case (1 n)
  show ?case
  proof (cases "n < 10")
    case True
    then have m: "''0123456789'' ! n \<in> set ''0123456789''" by (intro nth_mem) simp
    have "digits n = [''0123456789'' ! n]" using True by (subst digits.simps) simp
    with "1.prems" m show ?thesis by simp
  next
    case False
    have m: "''0123456789'' ! (n mod 10) \<in> set ''0123456789''" by (intro nth_mem) simp
    have "digits n = digits (n div 10) @ [''0123456789'' ! (n mod 10)]"
      using False by (subst digits.simps) simp
    with "1.prems" have "c \<in> set (digits (n div 10)) \<or> c = ''0123456789'' ! (n mod 10)"
      by auto
    then show ?thesis using "1.IH" [OF False] m by blast
  qed
qed

lemma FormatInt_chars:
  assumes "c \<in> set (FormatInt i)"
  shows "c \<in> set ''-0123456789''"
proof (cases "sint i < 0")
  case True
  then have "FormatInt i = CHR ''-'' # digits (nat (- sint i))"
    by (simp only: FormatInt_def if_True)
  with assms have "c = CHR ''-'' \<or> c \<in> set (digits (nat (- sint i)))"
    by (simp only: list.set insert_iff)
  then show ?thesis using digits_chars [of c "nat (- sint i)"] by auto
next
  case False
  then have "FormatInt i = digits (nat (sint i))"
    by (simp only: FormatInt_def if_False)
  with assms have "c \<in> set (digits (nat (sint i)))" by (simp only:)
  then show ?thesis using digits_chars [of c "nat (sint i)"] by auto
qed

lemma QueryEscape_id:
  "(\<And>c. c \<in> set s \<Longrightarrow> \<not> shouldEscape c) \<Longrightarrow> QueryEscape s = s"
proof (induction s)
  case Nil
  show ?case by (simp add: QueryEscape_def)
next
  case (Cons a s)
  have "\<not> shouldEscape a" using Cons.prems by simp
  moreover from this have "a \<noteq> CHR '' ''" by (auto simp: shouldEscape_def)
  moreover have "QueryEscape s = s" using Cons by simp
  ultimately show ?case by (simp add: QueryEscape_def escape_byte_def)
qed

lemma QueryEscape_FormatInt: "QueryEscape (FormatInt i) = FormatInt i"
proof (rule QueryEscape_id)
  fix c assume "c \<in> set (FormatInt i)"
  then have "c \<in> set ''-0123456789''" by (rule FormatInt_chars)
  then show "\<not> shouldEscape c" by (auto simp: shouldEscape_def)
qed

lemma QueryEscape_literals:
  "QueryEscape ''type'' = ''type''" "QueryEscape ''name'' = ''name''"
  "QueryEscape ''start'' = ''start''" "QueryEscape ''num'' = ''num''"
  "QueryEscape ''addr'' = ''addr''" "QueryEscape ''batch'' = ''batch''"
  "QueryEscape ''qtype'' = ''qtype''" "QueryEscape ''query'' = ''query''"
  "QueryEscape ''rid'' = ''rid''" "QueryEscape [] = []"
  by (simp_all add: QueryEscape_def escape_byte_def shouldEscape_def)


lemma Encode_batch:
  "Encode (Add (Add (Add (Add (Add [] ''type'' ''batch'') ''name'' n) ''start'' s) ''num'' (FormatInt m)) ''addr'' a) =
   ''addr='' @ QueryEscape a @ ''&name='' @ QueryEscape n @ ''&num='' @ FormatInt m @
   ''&start='' @ QueryEscape s @ ''&type=batch''"
  by (simp add: Encode_def QueryEscape_literals QueryEscape_FormatInt)

lemma sorted_batch:
  "ParseQuery (Encode (Add (Add (Add (Add (Add [] ''type'' ''batch'') ''name'' n) ''start'' s) ''num'' m) ''addr'' a)) =
   ([(''addr'', [a]), (''name'', [n]), (''num'', [m]), (''start'', [s]), (''type'', [''batch''])], True)"
  by (simp add: ParseQuery_Encode)

subsection \<open>The client and the scheme\<close>

text \<open>
  A URL that begins with \<^verbatim>\<open>http:\<close> has the scheme \<^verbatim>\<open>http\<close> and goes to the
  service; a URL that begins with \<^verbatim>\<open>=\<close> has no scheme and is refused.
\<close>

lemma Scheme_http:
  "Scheme (CHR ''h'' # CHR ''t'' # CHR ''t'' # CHR ''p'' # CHR '':'' # x) = ''http''"
  by (simp add: Scheme_def Cut_def getScheme_def is_letter_def is_scheme_char_def ToLower_def)


lemma roundtrip_http:
  "roundtrip srv
     \<lparr>req_method = m, url = CHR ''h'' # CHR ''t'' # CHR ''t'' # CHR ''p'' # CHR '':'' # x,
      content_type = ct, body = b\<rparr> w =
   (srv (requests w)
      \<lparr>req_method = m, url = CHR ''h'' # CHR ''t'' # CHR ''t'' # CHR ''p'' # CHR '':'' # x,
       content_type = ct, body = b\<rparr>,
    w\<lparr>requests := requests w @
         [\<lparr>req_method = m, url = CHR ''h'' # CHR ''t'' # CHR ''t'' # CHR ''p'' # CHR '':'' # x,
           content_type = ct, body = b\<rparr>]\<rparr>)"
  by (simp add: roundtrip_def Scheme_http)


subsection \<open>One parameter, and what a loop of Fprintf calls writes\<close>

lemma Encode_single: "Encode [(k, [x])] = QueryEscape k @ ''='' @ QueryEscape x"
  by (simp add: Encode_def)

lemma stdout_fold_Fprintf:
  "fold (\<lambda>t. Fprintf Sprintf format (f t)) ts w =
   w\<lparr>stdout := stdout w @ concat (map (\<lambda>t. Sprintf format (f t)) ts)\<rparr>"
  by (induction ts arbitrary: w) (simp_all add: Fprintf_def to_stdout_def)

lemma QueryEscape_name: "QueryEscape ''name'' = ''name''"
  by (simp add: QueryEscape_def escape_byte_def shouldEscape_def)

section \<open>The handlers\<close>

subsection \<open>disable\<close>

text \<open>
  Whatever the service answers, \<^verbatim>\<open>doDisable\<close> on a list of names that is not empty
  issues the request for the first name and no other.
\<close>

lemma doDisable_one_request:
  "\<exists>r. doDisable srv (name # rest) w =
     (Return r,
      w\<lparr>requests := requests w @
           [\<lparr>req_method = POST, url = ''http://localhost:9092/disable?name='' @ QueryEscape name,
             content_type = Some ''application/octetstream'', body = None\<rparr>]\<rparr>)"
  by (simp add: doDisable_def Post_def roundtrip_http Let_def Encode_single QueryEscape_name
      split: http_result.split)

text \<open>
  C1: with the names \<^verbatim>\<open>a\<close> and \<^verbatim>\<open>b\<close> and a service that answers every request
  with an empty envelope, so that no request fails, \<^verbatim>\<open>doDisable\<close> issues the POST for
  \<^verbatim>\<open>a\<close> only and returns nil: the name \<^verbatim>\<open>b\<close> is never processed.
\<close>

theorem disable_returns_after_first_name:
  "doDisable (\<lambda>h rq. Response (JSON zero_envelope)) [''a'', ''b''] world0 =
     (Return None,
      \<lparr>requests =
         [\<lparr>req_method = POST, url = ''http://localhost:9092/disable?name=a'',
           content_type = Some ''application/octetstream'', body = None\<rparr>],
       stdout = [], stderr = []\<rparr>)"
  by (simp add: doDisable_def Post_def roundtrip_http Let_def Encode_single QueryEscape_def
      escape_byte_def shouldEscape_def Decode_def zero_envelope_def world0_def)

subsection \<open>delete\<close>

text \<open>
  The URL that \<^verbatim>\<open>doDelete\<close> builds for a task has no query, whatever the identifier:
  there is no \<^verbatim>\<open>?\<close> in the base URL and none in escaped text.
\<close>

lemma delete_task_url_has_no_query:
  "RawQuery (''http://localhost:9092/task'' @ Encode (Add [] ''name'' arg)) = []"
proof -
  let ?u = "''http://localhost:9092/task'' @ Encode (Add [] ''name'' arg)"
  have "CHR ''?'' \<notin> set (Encode (Add [] ''name'' arg))"
       "CHR ''#'' \<notin> set (Encode (Add [] ''name'' arg))"
    using Encode_chars [of "CHR ''?''"] Encode_chars [of "CHR ''#''"] by auto
  then have q: "CHR ''?'' \<notin> set ?u" and h: "CHR ''#'' \<notin> set ?u"
    by auto
  have "Cut ?u CHR ''#'' = (?u, None)" using h by (rule Cut_no_sep)
  moreover have "Cut ?u CHR ''?'' = (?u, None)" using q by (rule Cut_no_sep)
  ultimately show ?thesis by (simp add: RawQuery_def)
qed

text \<open>
  C2: for \<^verbatim>\<open>delete task cpu_alert\<close> the one request is a DELETE whose URL is
  \<^verbatim>\<open>http://localhost:9092/taskname=cpu_alert\<close>; the query of that URL is empty and its
  path is \<^verbatim>\<open>/taskname=cpu_alert\<close>, so the parameter is part of the path and not of the
  query string.
\<close>

theorem delete_task_puts_parameter_in_path:
  "doDelete (\<lambda>h rq. Response (JSON zero_envelope)) [''task'', ''cpu_alert''] world0 =
     (Return None,
      \<lparr>requests =
         [\<lparr>req_method = DELETE, url = ''http://localhost:9092/taskname=cpu_alert'',
           content_type = None, body = None\<rparr>],
       stdout = [], stderr = [LogPrintln [''task'', ''cpu_alert'']]\<rparr>)
   \<and> RawQuery ''http://localhost:9092/taskname=cpu_alert'' = []
   \<and> EscapedPath ''http://localhost:9092/taskname=cpu_alert'' = ''/taskname=cpu_alert''"
  by (simp add: doDelete_def Delete_def roundtrip_http Let_def Encode_single QueryEscape_def
      escape_byte_def shouldEscape_def Decode_def zero_envelope_def world0_def to_stderr_def
      RawQuery_def EscapedPath_def Cut_def getScheme_def is_letter_def is_scheme_char_def)




subsection \<open>record\<close>

text \<open>The flag \<^verbatim>\<open>rquery\<close> is never read by \<^verbatim>\<open>doRecord\<close>.\<close>

lemma doRecord_ignores_rquery:
  "doRecord srv Duration_String (fl\<lparr>rquery := q\<rparr>) args w = doRecord srv Duration_String fl args w"
proof -
  have "record_values Duration_String (fl\<lparr>rquery := q\<rparr>) mode =
        record_values Duration_String fl mode" for mode
    by (simp add: record_values_def Let_def)
  then show ?thesis by (cases args) (simp_all add: doRecord_def)
qed

text \<open>
  C3: for \<^verbatim>\<open>record query\<close> with the query flag set to
  \<^verbatim>\<open>select value from cpu_idle\<close>, the request's query string holds the parameters
  \<^verbatim>\<open>addr\<close>, \<^verbatim>\<open>qtype\<close> and \<^verbatim>\<open>type\<close> and nothing else: the text of the query
  is not sent.
\<close>

theorem record_query_omits_query_text:
  "requests (snd (doRecord (\<lambda>h rq. Response (JSON zero_envelope)) (\<lambda>d. ''5m0s'')
       \<lparr>raddr = ''http://localhost:8086'', rname = [], rstart = [], rnum = 1,
        rquery = ''select value from cpu_idle'', rtype = ''streamer'', rdur = 300000000000\<rparr>
       [''query''] world0)) =
     [\<lparr>req_method = POST,
       url = ''http://localhost:9092/record?addr=http%3A%2F%2Flocalhost%3A8086&qtype=streamer&type=query'',
       content_type = Some ''application/octetstream'', body = None\<rparr>]
   \<and> ParseQuery (RawQuery
        ''http://localhost:9092/record?addr=http%3A%2F%2Flocalhost%3A8086&qtype=streamer&type=query'') =
       ([(''addr'', [''http://localhost:8086'']), (''qtype'', [''streamer'']),
         (''type'', [''query''])], True)"
  by (simp add: doRecord_def record_values_def Post_def roundtrip_http Let_def Encode_def
      QueryEscape_def escape_byte_def shouldEscape_def upperhex_def Decode_def zero_envelope_def
      world0_def Println_def to_stdout_def RawQuery_def Cut_def ParseQuery_def parse_piece_def
      ishex_def unhex_def char_of_eq_iff)

text \<open>
  C6: for every \<^verbatim>\<open>record batch\<close> invocation, whatever the flags hold, the handler
  issues one POST whose URL is the record endpoint followed by a query string with exactly
  the five parameters \<^verbatim>\<open>addr\<close>, \<^verbatim>\<open>name\<close>, \<^verbatim>\<open>num\<close>, \<^verbatim>\<open>start\<close> and
  \<^verbatim>\<open>type=batch\<close>; parsing that query string gives back the values of the flags, the
  number in decimal, and no other parameter.
\<close>

theorem record_batch_query_string:
  "let q = ''addr='' @ QueryEscape (raddr fl) @ ''&name='' @ QueryEscape (rname fl) @
           ''&num='' @ FormatInt (rnum fl) @ ''&start='' @ QueryEscape (rstart fl) @
           ''&type=batch'';
       u = ''http://localhost:9092/record?'' @ q
   in requests (snd (doRecord srv Duration_String fl [''batch''] w)) =
        requests w @
        [\<lparr>req_method = POST, url = u, content_type = Some ''application/octetstream'', body = None\<rparr>]
    \<and> RawQuery u = q
    \<and> ParseQuery q =
        ([(''addr'', [raddr fl]), (''name'', [rname fl]), (''num'', [FormatInt (rnum fl)]),
          (''start'', [rstart fl]), (''type'', [''batch''])], True)"
proof -
  define v where "v = Add (Add (Add (Add (Add [] ''type'' ''batch'') ''name'' (rname fl))
                       ''start'' (rstart fl)) ''num'' (FormatInt (rnum fl))) ''addr'' (raddr fl)"
  define q where "q = ''addr='' @ QueryEscape (raddr fl) @ ''&name='' @ QueryEscape (rname fl) @
           ''&num='' @ FormatInt (rnum fl) @ ''&start='' @ QueryEscape (rstart fl) @
           ''&type=batch''"
  have q: "Encode v = q" unfolding v_def q_def by (rule Encode_batch)
  have rv: "record_values Duration_String fl ''batch'' = Some v"
    by (simp add: record_values_def v_def)
  have rq: "requests (snd (doRecord srv Duration_String fl [''batch''] w)) =
        requests w @
        [\<lparr>req_method = POST, url = ''http://localhost:9092/record?'' @ q,
          content_type = Some ''application/octetstream'', body = None\<rparr>]"
    by (simp add: doRecord_def rv q Post_def roundtrip_http Println_def to_stdout_def Let_def
        split: http_result.split)
  have "RawQuery (''http://localhost:9092/record'' @ CHR ''?'' # Encode v) = Encode v"
    by (rule RawQuery_Encode) simp_all
  then have raw: "RawQuery (''http://localhost:9092/record?'' @ q) = q" by (simp add: q)
  have pq: "ParseQuery q =
        ([(''addr'', [raddr fl]), (''name'', [rname fl]), (''num'', [FormatInt (rnum fl)]),
          (''start'', [rstart fl]), (''type'', [''batch''])], True)"
    unfolding q [symmetric] v_def by (rule sorted_batch)
  show ?thesis
    unfolding Let_def q_def [symmetric] by (intro conjI) (rule rq, rule raw, rule pq)
qed

text \<open>
  C7: when the mode is one of the three known ones, the transport succeeds and the decoded
  envelope has an empty \<^verbatim>\<open>Error\<close>, \<^verbatim>\<open>doRecord\<close> returns nil and has written to
  standard output the recording identifier of the envelope followed by a newline, and
  nothing else; standard error is unchanged.
\<close>

theorem record_prints_recording_id:
  assumes "record_values Duration_String fl mode = Some v"
    and "srv (requests w)
           \<lparr>req_method = POST, url = ''http://localhost:9092/record?'' @ Encode v,
            content_type = Some ''application/octetstream'', body = None\<rparr> = Response b"
    and "Error (Decode b) = []"
  shows "doRecord srv Duration_String fl (mode # rest) w =
         (Return None,
          w\<lparr>requests := requests w @
               [\<lparr>req_method = POST, url = ''http://localhost:9092/record?'' @ Encode v,
                 content_type = Some ''application/octetstream'', body = None\<rparr>],
            stdout := stdout w @ RecordingID (Decode b) @ [CHR 0x0A]\<rparr>)"
  using assms
  by (simp add: doRecord_def Post_def roundtrip_http Println_def to_stdout_def Let_def)

theorem record_prints_recording_id_witness:
  "doRecord (\<lambda>h rq. Response (JSON (zero_envelope\<lparr>RecordingID := ''4e0f09c5''\<rparr>)))
     (\<lambda>d. ''5m0s'')
     \<lparr>raddr = [], rname = [], rstart = [], rnum = 1, rquery = [], rtype = [], rdur = 300000000000\<rparr>
     [''stream''] world0 =
   (Return None,
    \<lparr>requests =
       [\<lparr>req_method = POST, url = ''http://localhost:9092/record?duration=5m0s&type=stream'',
         content_type = Some ''application/octetstream'', body = None\<rparr>],
     stdout = ''4e0f09c5'' @ [CHR 0x0A], stderr = []\<rparr>)"
  using record_prints_recording_id
    [of "\<lambda>d. ''5m0s''"
        "\<lparr>raddr = [], rname = [], rstart = [], rnum = 1, rquery = [], rtype = [], rdur = 300000000000\<rparr>"
        "''stream''" "[(''type'', [''stream'']), (''duration'', [''5m0s''])]"
        "\<lambda>h rq. Response (JSON (zero_envelope\<lparr>RecordingID := ''4e0f09c5''\<rparr>))"
        world0 "JSON (zero_envelope\<lparr>RecordingID := ''4e0f09c5''\<rparr>)" "[]"]
  by (simp add: record_values_def Decode_def zero_envelope_def world0_def Encode_def
      QueryEscape_def escape_byte_def shouldEscape_def)

subsection \<open>enable\<close>

text \<open>
  C5: for the names \<^verbatim>\<open>a\<close>, \<^verbatim>\<open>b\<close>, \<^verbatim>\<open>c\<close>, when the service answers the
  request for \<^verbatim>\<open>a\<close> with an empty \<^verbatim>\<open>Error\<close> and then the request for \<^verbatim>\<open>b\<close>
  with an \<^verbatim>\<open>Error\<close> that is not empty, \<^verbatim>\<open>doEnable\<close> has issued exactly the two
  requests for \<^verbatim>\<open>a\<close> and \<^verbatim>\<open>b\<close>, in that order, none for \<^verbatim>\<open>c\<close>, and returns
  the error of the second response.
\<close>

theorem enable_stops_at_failing_second_name:
  assumes "srv (requests w)
             \<lparr>req_method = POST, url = ''http://localhost:9092/enable?name='' @ QueryEscape a,
              content_type = Some ''application/octetstream'', body = None\<rparr> = Response ra"
    and "Error (Decode ra) = []"
    and "srv (requests w @
               [\<lparr>req_method = POST, url = ''http://localhost:9092/enable?name='' @ QueryEscape a,
                 content_type = Some ''application/octetstream'', body = None\<rparr>])
             \<lparr>req_method = POST, url = ''http://localhost:9092/enable?name='' @ QueryEscape b,
              content_type = Some ''application/octetstream'', body = None\<rparr> = Response rb"
    and "Error (Decode rb) \<noteq> []"
  shows "doEnable srv [a, b, c] w =
         (Return (Some (ErrorsNew (Error (Decode rb)))),
          w\<lparr>requests := requests w @
               [\<lparr>req_method = POST, url = ''http://localhost:9092/enable?name='' @ QueryEscape a,
                 content_type = Some ''application/octetstream'', body = None\<rparr>,
                \<lparr>req_method = POST, url = ''http://localhost:9092/enable?name='' @ QueryEscape b,
                 content_type = Some ''application/octetstream'', body = None\<rparr>]\<rparr>)"
  using assms
  by (simp add: doEnable_def Post_def roundtrip_http Let_def Encode_single QueryEscape_name)

theorem enable_stops_at_failing_second_name_witness:
  "doEnable
     (\<lambda>h rq. if url rq = ''http://localhost:9092/enable?name=b''
              then Response (JSON (zero_envelope\<lparr>Error := ''unknown task b''\<rparr>))
              else Response (JSON zero_envelope))
     [''a'', ''b'', ''c''] world0 =
   (Return (Some (ErrorsNew ''unknown task b'')),
    \<lparr>requests =
       [\<lparr>req_method = POST, url = ''http://localhost:9092/enable?name=a'',
         content_type = Some ''application/octetstream'', body = None\<rparr>,
        \<lparr>req_method = POST, url = ''http://localhost:9092/enable?name=b'',
         content_type = Some ''application/octetstream'', body = None\<rparr>],
     stdout = [], stderr = []\<rparr>)"
  using enable_stops_at_failing_second_name
    [of "\<lambda>h rq. if url rq = ''http://localhost:9092/enable?name=b''
              then Response (JSON (zero_envelope\<lparr>Error := ''unknown task b''\<rparr>))
              else Response (JSON zero_envelope)"
        world0 "''a''" "JSON zero_envelope" "''b''"
        "JSON (zero_envelope\<lparr>Error := ''unknown task b''\<rparr>)" "''c''"]
  by (simp add: Decode_def zero_envelope_def world0_def QueryEscape_def escape_byte_def
      shouldEscape_def)

subsection \<open>list\<close>

text \<open>
  C8: when the transport succeeds and the decoded envelope has an empty \<^verbatim>\<open>Error\<close>,
  \<^verbatim>\<open>list tasks\<close> and \<^verbatim>\<open>list recordings\<close> write the header line to standard output
  first and then one row for each entry of the collection, in order; for an empty
  collection the output is the header line alone.
\<close>

theorem list_prints_header_before_rows:
  "(srv (requests w)
      \<lparr>req_method = GET,
       url = ''http://localhost:9092/tasks?'' @ Encode (Add [] ''tasks'' (Join ids '','')),
       content_type = None, body = None\<rparr> = Response b \<and> Error (Decode b) = [] \<longrightarrow>
    doList srv Sprintf (''tasks'' # ids) w =
      (Return None,
       w\<lparr>requests := requests w @
            [\<lparr>req_method = GET,
              url = ''http://localhost:9092/tasks?'' @ Encode (Add [] ''tasks'' (Join ids '','')),
              content_type = None, body = None\<rparr>],
         stdout := stdout w @
            Sprintf ''%-30s%-10v%-10v\<newline>'' [Str ''Name'', Str ''Type'', Str ''Enabled''] @
            concat (map (\<lambda>t. Sprintf ''%-30s%-10v%-10v\<newline>''
                               [Str (task_Name t), TType (task_Type t), Bool (task_Enabled t)])
                        (Tasks (Decode b)))\<rparr>))
   \<and>
   (srv (requests w)
      \<lparr>req_method = GET,
       url = ''http://localhost:9092/recordings?'' @ Encode (Add [] ''rids'' (Join ids '','')),
       content_type = None, body = None\<rparr> = Response b \<and> Error (Decode b) = [] \<longrightarrow>
    doList srv Sprintf (''recordings'' # ids) w =
      (Return None,
       w\<lparr>requests := requests w @
            [\<lparr>req_method = GET,
              url = ''http://localhost:9092/recordings?'' @ Encode (Add [] ''rids'' (Join ids '','')),
              content_type = None, body = None\<rparr>],
         stdout := stdout w @
            Sprintf ''%-40s%-10s%15s\<newline>'' [Str ''ID'', Str ''Type'', Str ''Size (MB)''] @
            concat (map (\<lambda>r. Sprintf ''%-40s%-10v%15.2f\<newline>''
                               [Str (recording_ID r), TType (recording_Type r),
                                MiB (recording_Size r)])
                        (Recordings (Decode b)))\<rparr>))"
  by (simp add: doList_def Get_def roundtrip_http Let_def stdout_fold_Fprintf Fprintf_def
      to_stdout_def)

theorem list_prints_header_before_rows_witness:
  "doList (\<lambda>h rq. Response (JSON zero_envelope))
      (\<lambda>format operands. concat (map (\<lambda>x. case x of Str s \<Rightarrow> s @ '' '' | _ \<Rightarrow> ''? '') operands))
      [''tasks''] world0 =
     (Return None,
      \<lparr>requests =
         [\<lparr>req_method = GET, url = ''http://localhost:9092/tasks?tasks='',
           content_type = None, body = None\<rparr>],
       stdout = ''Name Type Enabled '', stderr = []\<rparr>)
   \<and>
   doList (\<lambda>h rq. Response (JSON zero_envelope))
      (\<lambda>format operands. concat (map (\<lambda>x. case x of Str s \<Rightarrow> s @ '' '' | _ \<Rightarrow> ''? '') operands))
      [''recordings''] world0 =
     (Return None,
      \<lparr>requests =
         [\<lparr>req_method = GET, url = ''http://localhost:9092/recordings?rids='',
           content_type = None, body = None\<rparr>],
       stdout = ''ID Type Size (MB) '', stderr = []\<rparr>)"
  using list_prints_header_before_rows
    [of "\<lambda>h rq. Response (JSON zero_envelope)" world0 "[]" "JSON zero_envelope"
        "\<lambda>format operands. concat (map (\<lambda>x. case x of Str s \<Rightarrow> s @ '' '' | _ \<Rightarrow> ''? '') operands)"]
  by (simp add: Decode_def zero_envelope_def world0_def Encode_single QueryEscape_def
      escape_byte_def shouldEscape_def)

text \<open>
  C9: when the first argument of \<^verbatim>\<open>list\<close> is neither \<^verbatim>\<open>tasks\<close> nor
  \<^verbatim>\<open>recordings\<close>, \<^verbatim>\<open>doList\<close> returns nil and leaves the requests, standard output
  and standard error as they were, and the process ends with code 0.
\<close>

theorem list_unknown_kind_returns_nil:
  assumes "args \<noteq> []" and "hd args \<noteq> ''tasks''" and "hd args \<noteq> ''recordings''"
  shows "doList srv Sprintf args w = (Return None, w) \<and>
         main E (prog # ''list'' # args) w = (Exit 0, w)"
  using assms by (simp add: doList_def main_def finish_def)

theorem list_unknown_kind_returns_nil_witness:
  "doList (\<lambda>h rq. TransportError ''connection refused'') (\<lambda>format operands. format)
     [''task''] world0 = (Return None, world0) \<and>
   main \<lparr>env_service = (\<lambda>h rq. TransportError ''connection refused''),
         env_Sprintf = (\<lambda>format operands. format),
         env_Duration_String = (\<lambda>d. ''5m0s''),
         env_os_Open = (\<lambda>path. Inl ''no such file or directory''),
         env_build = \<lparr>version = ''v0.1'', commit = [], branch = []\<rparr>,
         env_record_Parse = (\<lambda>args. ParseExit 2 []),
         env_define_Parse = (\<lambda>args. ParseExit 2 []),
         env_replay_Parse = (\<lambda>args. ParseExit 2 [])\<rparr>
     [''kapacitor'', ''list'', ''task''] world0 = (Exit 0, world0)"
  using list_unknown_kind_returns_nil
    [of "[''task'']" "\<lambda>h rq. TransportError ''connection refused''" "\<lambda>format operands. format"
        world0
        "\<lparr>env_service = (\<lambda>h rq. TransportError ''connection refused''),
         env_Sprintf = (\<lambda>format operands. format),
         env_Duration_String = (\<lambda>d. ''5m0s''),
         env_os_Open = (\<lambda>path. Inl ''no such file or directory''),
         env_build = \<lparr>version = ''v0.1'', commit = [], branch = []\<rparr>,
         env_record_Parse = (\<lambda>args. ParseExit 2 []),
         env_define_Parse = (\<lambda>args. ParseExit 2 []),
         env_replay_Parse = (\<lambda>args. ParseExit 2 [])\<rparr>" "''kapacitor''"]
  by simp

subsection \<open>Bodies that are not JSON\<close>

text \<open>
  A service and the same service with every body that is not JSON replaced by an empty
  envelope cannot be told apart by a handler.
\<close>

lemma roundtrip_repaired:
  "roundtrip (\<lambda>h rq. case srv h rq of Response NotJSON \<Rightarrow> Response (JSON zero_envelope) | r \<Rightarrow> r)
     rq w =
   (case roundtrip srv rq w of
      (Response NotJSON, w') \<Rightarrow> (Response (JSON zero_envelope), w')
    | x \<Rightarrow> x)"
  by (simp add: roundtrip_def Let_def split: http_result.split response_body.split)

lemma Decode_NotJSON: "Decode NotJSON = Decode (JSON zero_envelope)"
  by (simp add: Decode_def)

lemma enable_loop_repaired:
  "enable_loop (\<lambda>h rq. case srv h rq of Response NotJSON \<Rightarrow> Response (JSON zero_envelope) | r \<Rightarrow> r)
     names w = enable_loop srv names w"
proof (induction names arbitrary: w)
  case Nil
  show ?case by simp
next
  case (Cons a names)
  show ?case
    by (simp add: Post_def roundtrip_repaired Cons.IH Decode_NotJSON Let_def
        split: prod.split http_result.split response_body.split)
qed

lemma disable_loop_repaired:
  "disable_loop (\<lambda>h rq. case srv h rq of Response NotJSON \<Rightarrow> Response (JSON zero_envelope) | r \<Rightarrow> r)
     names w = disable_loop srv names w"
  by (cases names)
     (simp_all add: Post_def roundtrip_repaired Decode_NotJSON
        split: prod.split http_result.split response_body.split)

lemma delete_loop_repaired:
  "delete_loop (\<lambda>h rq. case srv h rq of Response NotJSON \<Rightarrow> Response (JSON zero_envelope) | r \<Rightarrow> r)
     baseURL paramName ids w = delete_loop srv baseURL paramName ids w"
proof (induction ids arbitrary: w)
  case Nil
  show ?case by simp
next
  case (Cons a ids)
  show ?case
    by (simp add: Delete_def roundtrip_repaired Cons.IH Decode_NotJSON Let_def
        split: prod.split http_result.split response_body.split)
qed

lemma doRecord_repaired:
  "doRecord (\<lambda>h rq. case srv h rq of Response NotJSON \<Rightarrow> Response (JSON zero_envelope) | r \<Rightarrow> r)
     Duration_String fl args w = doRecord srv Duration_String fl args w"
  by (simp add: doRecord_def Post_def roundtrip_repaired Decode_NotJSON
      split: list.split option.split prod.split http_result.split response_body.split)

lemma doDefine_repaired:
  "doDefine (\<lambda>h rq. case srv h rq of Response NotJSON \<Rightarrow> Response (JSON zero_envelope) | r \<Rightarrow> r)
     os_Open fl args w = doDefine srv os_Open fl args w"
  by (simp add: doDefine_def Post_def roundtrip_repaired Decode_NotJSON
      split: sum.split prod.split http_result.split response_body.split)

lemma doReplay_repaired:
  "doReplay (\<lambda>h rq. case srv h rq of Response NotJSON \<Rightarrow> Response (JSON zero_envelope) | r \<Rightarrow> r)
     fl args w = doReplay srv fl args w"
  by (simp add: doReplay_def Post_def roundtrip_repaired Decode_NotJSON Let_def
      split: prod.split http_result.split response_body.split)

lemma doList_repaired:
  "doList (\<lambda>h rq. case srv h rq of Response NotJSON \<Rightarrow> Response (JSON zero_envelope) | r \<Rightarrow> r)
     Sprintf args w = doList srv Sprintf args w"
  by (simp add: doList_def Get_def roundtrip_repaired Decode_NotJSON Let_def
      split: prod.split http_result.split response_body.split)

lemma doLevel_repaired:
  "doLevel (\<lambda>h rq. case srv h rq of Response NotJSON \<Rightarrow> Response (JSON zero_envelope) | r \<Rightarrow> r)
     args w = doLevel srv args w"
  by (simp add: doLevel_def Post_def roundtrip_repaired Decode_NotJSON Let_def
      split: prod.split http_result.split response_body.split)

text \<open>
  C4: a body that is not JSON decodes to the zero envelope, and every handler that talks to
  the service behaves on a service that answers with such bodies exactly as on the service
  that answers with a genuine empty envelope in their place: the same outcome, the same
  requests, the same output. No outcome tells of the failed decoding.
\<close>

theorem malformed_body_is_empty_success:
  "let srv' = (\<lambda>h rq. case srv h rq of
                         Response NotJSON \<Rightarrow> Response (JSON zero_envelope)
                       | r \<Rightarrow> r)
   in Decode NotJSON = zero_envelope
    \<and> doRecord srv Duration_String rfl args w = doRecord srv' Duration_String rfl args w
    \<and> doDefine srv os_Open dfl args w = doDefine srv' os_Open dfl args w
    \<and> doReplay srv pfl args w = doReplay srv' pfl args w
    \<and> doEnable srv args w = doEnable srv' args w
    \<and> doDisable srv args w = doDisable srv' args w
    \<and> doDelete srv args w = doDelete srv' args w
    \<and> doList srv Sprintf args w = doList srv' Sprintf args w
    \<and> doLevel srv args w = doLevel srv' args w"
  unfolding Let_def
  by (intro conjI)
     (simp_all only: doRecord_repaired doDefine_repaired doReplay_repaired doList_repaired
        doLevel_repaired doEnable_def doDisable_def doDelete_def enable_loop_repaired
        disable_loop_repaired delete_loop_repaired Decode_def response_body.case)

end
